theory Spec2Isabelle
  imports Complex_Main
begin

section \<open>Python values and exceptions\<close>

text \<open>
  The module \<^verbatim>\<open>si_prefix/__init__.py\<close> is embedded function by function.
  A Python float is modelled by a real number, so the arithmetic of \<^verbatim>\<open>split\<close>
  is exact and \<^verbatim>\<open>math.log10\<close> is the mathematical logarithm; rounding
  to 53 bits is outside this model, and so are an infinity and a NaN as arguments of
  \<^verbatim>\<open>split\<close> and \<^verbatim>\<open>si_format\<close>.  A Python \<^verbatim>\<open>int\<close> is
  an \<^typ>\<open>int\<close>.  A Python \<^verbatim>\<open>str\<close> is a \<^typ>\<open>string\<close> whose characters are
  the code points 0 to 255, so the micro sign U+00B5 is the single character
  \<open>CHR 0xB5\<close>.  Every \<^verbatim>\<open>raise\<close> is a value \<open>Inl e\<close>.
\<close>

datatype py_error =
  ValueError | AssertionError | AttributeError | KeyError | IndexError | TypeError

section \<open>The prefix table\<close>

text \<open>\<^verbatim>\<open>SI_PREFIX_UNITS = u"yzafpn\<mu>m kMGTPEZY"\<close> (line 34).\<close>

definition SI_PREFIX_UNITS :: string where
  "SI_PREFIX_UNITS = ''yzafpn'' @ [CHR 0xB5] @ ''m kMGTPEZY''"

text \<open>Python indexing \<^verbatim>\<open>s[i]\<close>: a negative index counts from the end, and an
  index outside the string raises \<^verbatim>\<open>IndexError\<close>.  The result is a string of
  length one.\<close>

definition py_getitem :: "string \<Rightarrow> int \<Rightarrow> py_error + string" where
  "py_getitem s i =
     (let n = int (length s)
      in if 0 \<le> i \<and> i < n then Inr [s ! nat i]
         else if - n \<le> i \<and> i < 0 then Inr [s ! nat (n + i)]
         else Inl IndexError)"

text \<open>\<^verbatim>\<open>s.index(sub)\<close>: the lowest position at which \<^verbatim>\<open>sub\<close> occurs in
  \<^verbatim>\<open>s\<close>, \<^verbatim>\<open>ValueError\<close> when there is none.\<close>

fun str_index_from :: "string \<Rightarrow> string \<Rightarrow> nat \<Rightarrow> py_error + nat" where
  "str_index_from [] sub i = (if sub = [] then Inr i else Inl ValueError)"
| "str_index_from (c # cs) sub i =
     (if take (length sub) (c # cs) = sub then Inr i else str_index_from cs sub (Suc i))"

definition str_index :: "string \<Rightarrow> string \<Rightarrow> py_error + nat" where
  "str_index s sub = str_index_from s sub 0"

text \<open>\<^verbatim>\<open>prefix\<close> (lines 101 to 117).\<close>

definition prefix :: "int \<Rightarrow> py_error + string" where
  "prefix expof10 =
     (let prefix_levels = (int (length SI_PREFIX_UNITS) - 1) div 2;
          si_level = expof10 div 3
      in if \<bar>si_level\<bar> > prefix_levels then Inl ValueError
         else py_getitem SI_PREFIX_UNITS (si_level + prefix_levels))"

text \<open>\<^verbatim>\<open>si_prefix_expof10\<close> and \<^verbatim>\<open>si_prefix_scale\<close> (lines 278 to 307).
  \<^verbatim>\<open>10 ** n\<close> is an integer for \<open>n \<ge> 0\<close> and a float otherwise; both are
  the real \<open>10 powi n\<close> here.\<close>

definition si_prefix_expof10 :: "string \<Rightarrow> py_error + int" where
  "si_prefix_expof10 si_unit =
     (let prefix_levels = (int (length SI_PREFIX_UNITS) - 1) div 2
      in case str_index SI_PREFIX_UNITS si_unit of
           Inl e \<Rightarrow> Inl e
         | Inr i \<Rightarrow> Inr (3 * (int i - prefix_levels)))"

definition si_prefix_scale :: "string \<Rightarrow> py_error + real" where
  "si_prefix_scale si_unit =
     (case si_prefix_expof10 si_unit of Inl e \<Rightarrow> Inl e | Inr n \<Rightarrow> Inr (10 powi n))"

section \<open>The normalizer\<close>

text \<open>\<^verbatim>\<open>math.log10\<close> raises \<^verbatim>\<open>ValueError\<close> (math domain error) at zero and
  below; \<^verbatim>\<open>int(x)\<close> of a float truncates toward zero.\<close>

definition log10 :: "real \<Rightarrow> py_error + real" where
  "log10 x = (if x \<le> 0 then Inl ValueError else Inr (log 10 x))"

definition py_int :: "real \<Rightarrow> int" where
  "py_int x = (if x \<ge> 0 then \<lfloor>x\<rfloor> else \<lceil>x\<rceil>)"

text \<open>\<^verbatim>\<open>split\<close> (lines 49 to 98).  The two assignments to \<^verbatim>\<open>value\<close> and
  \<^verbatim>\<open>expof10\<close> are the successive \<open>let\<close> bindings.\<close>

definition split :: "real \<Rightarrow> py_error + real \<times> int" where
  "split value0 =
     (let negative = (value0 < 0);
          value1 = (if value0 < 0 then - value0 else value0)
      in if \<not> value0 < 0 \<and> value0 = 0 then Inr (0, 0)
         else case log10 value1 of
              Inl e \<Rightarrow> Inl e
            | Inr l \<Rightarrow>
               (let e0 = py_int l;
                    expof10 = (if e0 > 0 then (e0 div 3) * 3
                               else if e0 < 0 then (- e0 + 3) div 3 * (- 3)
                               else e0);
                    value2 = value1 * 10 powi (- expof10);
                    value3 = (if value2 \<ge> 1000 then value2 / 1000 else value2);
                    expof10' = (if value2 \<ge> 1000 then expof10 + 3 else expof10)
                in Inr (if negative then - value3 else value3, expof10')))"

section \<open>Rendering\<close>

text \<open>Decimal digits of a natural number and \<^verbatim>\<open>str(n)\<close> of an integer.\<close>

definition digit_char :: "nat \<Rightarrow> char" where
  "digit_char d = ''0123456789'' ! d"

fun digits_of :: "nat \<Rightarrow> string" where
  "digits_of n = (if n < 10 then [digit_char n] else digits_of (n div 10) @ [digit_char (n mod 10)])"

declare digits_of.simps [simp del]

definition py_str :: "int \<Rightarrow> string" where
  "py_str i = (if i < 0 then ''-'' @ digits_of (nat (- i)) else digits_of (nat i))"

text \<open>The format specification \<^verbatim>\<open>.2f\<close>: the value rounded to the nearest
  multiple of 1/100, a tie going to the even neighbour, printed with a leading minus sign
  for a negative value (also when it rounds to zero: \<^verbatim>\<open>'-0.00'\<close>).\<close>

definition round_half_even :: "real \<Rightarrow> nat" where
  "round_half_even y =
     (let r = nat \<lfloor>y\<rfloor>; f = y - real_of_int \<lfloor>y\<rfloor>
      in if f < 1 / 2 then r else if f > 1 / 2 then r + 1
         else if even r then r else r + 1)"

definition fmt_2f :: "real \<Rightarrow> string" where
  "fmt_2f x =
     (let n = round_half_even (\<bar>x\<bar> * 100)
      in (if x < 0 then ''-'' else '''') @ digits_of (n div 100) @ ''.''
         @ [digit_char (n mod 100 div 10), digit_char (n mod 10)])"

text \<open>Whitespace of \<^verbatim>\<open>str.isspace\<close>, which is also the class \<^verbatim>\<open>\s\<close> of
  \<^verbatim>\<open>re\<close> on a \<^verbatim>\<open>str\<close> pattern, among the code points below 256.\<close>

definition is_space :: "char \<Rightarrow> bool" where
  "is_space c = (of_char c \<in> {9, 10, 11, 12, 13, 28, 29, 30, 31, 32, 133, 160 :: nat})"

definition rstrip :: "string \<Rightarrow> string" where
  "rstrip s = rev (dropWhile is_space (rev s))"

text \<open>A template is modelled by what \<^verbatim>\<open>str.format\<close> does with it: the function
  from the two keyword arguments to the rendered string, or to the exception that
  \<^verbatim>\<open>str.format\<close> raises (\<^verbatim>\<open>ValueError\<close> for a malformed template or
  format specification, \<^verbatim>\<open>KeyError\<close> for an unknown field name,
  \<^verbatim>\<open>IndexError\<close> for a positional field).  The two default templates are
  \<^verbatim>\<open>'{value:.2f} {prefix}'\<close> and \<^verbatim>\<open>'{value:.2f}e{expof10}'\<close>.\<close>

type_synonym template = "real \<Rightarrow> string \<Rightarrow> py_error + string"


definition default_exp_format_str :: template where
  "default_exp_format_str v x = Inr (fmt_2f v @ ''e'' @ x)"

text \<open>A malformed first template: \<^verbatim>\<open>'{'.format(...)\<close> raises
  \<^verbatim>\<open>ValueError\<close> (single \<^verbatim>\<open>'{'\<close> encountered in format string) whatever the
  arguments are.\<close>

definition malformed_format_str :: template where
  "malformed_format_str v p = Inl ValueError"

text \<open>\<^verbatim>\<open>si_format\<close> (lines 120 to 234).  The \<^verbatim>\<open>try\<close> block covers both the
  call of \<^verbatim>\<open>prefix\<close> and the rendering of the first template; only
  \<^verbatim>\<open>ValueError\<close> is caught.\<close>

definition si_format :: "real \<Rightarrow> template \<Rightarrow> template \<Rightarrow> py_error + string" where
  "si_format value0 format_str exp_format_str =
     (case split value0 of
        Inl e \<Rightarrow> Inl e
      | Inr (v, expof10) \<Rightarrow>
         (case (case prefix expof10 of
                  Inl e \<Rightarrow> Inl e
                | Inr p \<Rightarrow> format_str v (rstrip p)) of
            Inl ValueError \<Rightarrow>
              (let sign = (if expof10 > 0 then ''+'' else '''')
               in exp_format_str v (sign @ py_str expof10))
          | r \<Rightarrow> r))"

section \<open>Regular expressions\<close>

text \<open>
  The fragment of \<^verbatim>\<open>re\<close> that the two patterns of \<^verbatim>\<open>si_parse\<close> use: a
  character class, concatenation, the greedy \<^verbatim>\<open>?\<close>, the greedy \<^verbatim>\<open>*\<close> and
  \<^verbatim>\<open>+\<close> of a character class, a named group and \<^verbatim>\<open>$\<close>.  \<open>rmatch\<close> is the
  backtracking matcher: it returns every way to match a pattern at the head of the
  string, in the order in which \<^verbatim>\<open>re\<close> tries them (a greedy operator tries the
  longest repetition first), each with the groups captured so far and the rest of the
  string.  \<^verbatim>\<open>re.match\<close> returns the first one.  \<^verbatim>\<open>$\<close> holds at the end of
  the string and just before a newline that ends it; \<^verbatim>\<open>^\<close> holds where
  \<^verbatim>\<open>re.match\<close> starts and is left out.
\<close>

datatype regex =
    Class "char \<Rightarrow> bool"
  | Seq regex regex
  | Opt regex
  | Star "char \<Rightarrow> bool"
  | Plus "char \<Rightarrow> bool"
  | Group string regex
  | Eos

type_synonym groups = "string \<rightharpoonup> string"

fun rmatch :: "regex \<Rightarrow> groups \<Rightarrow> string \<Rightarrow> (groups \<times> string) list" where
  "rmatch (Class P) g s = (case s of [] \<Rightarrow> [] | c # cs \<Rightarrow> if P c then [(g, cs)] else [])"
| "rmatch (Seq r1 r2) g s = concat (map (\<lambda>(g', s'). rmatch r2 g' s') (rmatch r1 g s))"
| "rmatch (Opt r) g s = rmatch r g s @ [(g, s)]"
| "rmatch (Star P) g s = map (\<lambda>k. (g, drop k s)) (rev [0..<Suc (length (takeWhile P s))])"
| "rmatch (Plus P) g s = map (\<lambda>k. (g, drop k s)) (rev [1..<Suc (length (takeWhile P s))])"
| "rmatch (Group n r) g s =
     map (\<lambda>(g', s'). (g'(n \<mapsto> take (length s - length s') s), s')) (rmatch r g s)"
| "rmatch Eos g s = (if s = [] \<or> s = [CHR 0x0A] then [(g, s)] else [])"

definition first_match :: "regex \<Rightarrow> groups \<Rightarrow> string \<Rightarrow> (groups \<times> string) option" where
  "first_match r g s = (case rmatch r g s of [] \<Rightarrow> None | x # _ \<Rightarrow> Some x)"

definition re_match :: "regex \<Rightarrow> string \<Rightarrow> groups option" where
  "re_match r s = map_option fst (first_match r Map.empty s)"

text \<open>The character classes: \<^verbatim>\<open>\d\<close>, \<^verbatim>\<open>[\+\-]\<close>, \<^verbatim>\<open>[eE]\<close>, the dot (any
  character but a newline) and the class of the prefix table.\<close>

definition is_digit :: "char \<Rightarrow> bool" where
  "is_digit c = (c \<in> set ''0123456789'')"

definition is_sign :: "char \<Rightarrow> bool" where
  "is_sign c = (c = CHR ''+'' \<or> c = CHR ''-'')"

definition is_e :: "char \<Rightarrow> bool" where
  "is_e c = (c = CHR ''e'' \<or> c = CHR ''E'')"

definition any_char :: "char \<Rightarrow> bool" where
  "any_char c = (c \<noteq> CHR 0x0A)"

definition is_si_unit :: "char \<Rightarrow> bool" where
  "is_si_unit c = (c \<in> set SI_PREFIX_UNITS)"

text \<open>The two patterns compiled in \<^verbatim>\<open>si_parse\<close> (lines 256 to 261).  The dot of
  the group \<^verbatim>\<open>fraction\<close> is not escaped in the source.\<close>

definition CRE_10E_NUMBER :: regex where
  "CRE_10E_NUMBER =
     Seq (Star is_space)
    (Seq (Opt (Group ''integer'' (Seq (Opt (Class is_sign)) (Plus is_digit))))
    (Seq (Opt (Group ''fraction'' (Seq (Class any_char) (Plus is_digit))))
    (Seq (Star is_space)
    (Seq (Opt (Seq (Class is_e) (Seq (Star is_space)
                 (Group ''expof10'' (Seq (Opt (Class is_sign)) (Plus is_digit))))))
     Eos))))"

definition CRE_SI_NUMBER :: regex where
  "CRE_SI_NUMBER =
     Seq (Star is_space)
    (Seq (Group ''number''
            (Seq (Opt (Group ''integer'' (Seq (Opt (Class is_sign)) (Plus is_digit))))
                 (Opt (Group ''fraction'' (Seq (Class any_char) (Plus is_digit))))))
    (Seq (Star is_space)
    (Seq (Opt (Group ''si_unit'' (Class is_si_unit)))
    (Seq (Star is_space)
     Eos))))"

section \<open>The built-in float conversion\<close>

text \<open>
  \<^verbatim>\<open>float(s)\<close> of a string returns a finite value, an infinity or a NaN, or raises
  \<^verbatim>\<open>ValueError\<close>.  Its grammar (Python Language Reference, built-in
  \<^verbatim>\<open>float\<close>): whitespace is removed on both sides; then an optional sign and either
  \<^verbatim>\<open>inf\<close>, \<^verbatim>\<open>infinity\<close> or \<^verbatim>\<open>nan\<close> in any case, or digits with an optional
  point and an optional exponent; one underscore may stand between two digits.  The
  whitespace removed is that of \<^verbatim>\<open>str.isspace\<close> without the four separators
  \<^verbatim>\<open>\x1c\<close> to \<^verbatim>\<open>\x1f\<close>.  The value of a finite literal is the exact decimal value.
\<close>

datatype pyfloat = Finite real | PInf | NInf | NaN

definition float_space :: "char \<Rightarrow> bool" where
  "float_space c = (of_char c \<in> {9, 10, 11, 12, 13, 32, 133, 160 :: nat})"

definition digit_val :: "char \<Rightarrow> nat" where
  "digit_val c = of_char c - 48"

definition nat_of_digits :: "string \<Rightarrow> nat" where
  "nat_of_digits ds = foldl (\<lambda>a c. 10 * a + digit_val c) 0 ds"

text \<open>Every underscore has a digit on its left and a digit on its right;
  \<open>prev\<close> is the character before the head of the string.\<close>

fun underscores_ok :: "char option \<Rightarrow> string \<Rightarrow> bool" where
  "underscores_ok prev [] = (prev \<noteq> Some CHR ''_'')"
| "underscores_ok prev (c # cs) =
     ((if c = CHR ''_'' then (case prev of Some p \<Rightarrow> is_digit p | None \<Rightarrow> False)
       else if prev = Some CHR ''_'' then is_digit c else True)
      \<and> underscores_ok (Some c) cs)"

definition to_lower :: "char \<Rightarrow> char" where
  "to_lower c = (let n = of_char c :: nat in if 65 \<le> n \<and> n \<le> 90 then char_of (n + 32) else c)"

text \<open>The exponent part: \<^verbatim>\<open>e\<close> or \<^verbatim>\<open>E\<close>, an optional sign and at least one
  digit, up to the end of the string.\<close>

definition parse_exponent :: "string \<Rightarrow> int option" where
  "parse_exponent s =
     (case s of
        [] \<Rightarrow> Some 0
      | c # cs \<Rightarrow>
          if is_e c then
            (let neg = (cs \<noteq> [] \<and> hd cs = CHR ''-'');
                 ds = (if cs \<noteq> [] \<and> is_sign (hd cs) then tl cs else cs)
             in if ds \<noteq> [] \<and> list_all is_digit ds
                then Some (if neg then - int (nat_of_digits ds) else int (nat_of_digits ds))
                else None)
          else None)"

definition parse_number :: "string \<Rightarrow> real option" where
  "parse_number s =
     (let ip = takeWhile is_digit s;
          r1 = dropWhile is_digit s;
          dot = (r1 \<noteq> [] \<and> hd r1 = CHR ''.'');
          fp = (if dot then takeWhile is_digit (tl r1) else []);
          r2 = (if dot then dropWhile is_digit (tl r1) else r1)
      in if ip = [] \<and> fp = [] then None
         else case parse_exponent r2 of
                None \<Rightarrow> None
              | Some x \<Rightarrow> Some (real (nat_of_digits (ip @ fp)) * 10 powi (x - int (length fp))))"

definition parse_float :: "string \<Rightarrow> py_error + pyfloat" where
  "parse_float s =
     (let neg = (s \<noteq> [] \<and> hd s = CHR ''-'');
          body = (if s \<noteq> [] \<and> is_sign (hd s) then tl s else s);
          low = map to_lower body
      in if low = ''inf'' \<or> low = ''infinity'' then Inr (if neg then NInf else PInf)
         else if low = ''nan'' then Inr NaN
         else case parse_number body of
                None \<Rightarrow> Inl ValueError
              | Some x \<Rightarrow> Inr (Finite (if neg then - x else x)))"

definition py_float :: "string \<Rightarrow> py_error + pyfloat" where
  "py_float s =
     (if CHR ''_'' \<in> set s \<and> \<not> underscores_ok None s then Inl ValueError
      else let t = filter (\<lambda>c. c \<noteq> CHR ''_'') s;
               u = rev (dropWhile float_space (rev (dropWhile float_space t)))
           in if u = [] then Inl ValueError else parse_float u)"

text \<open>The product \<^verbatim>\<open>float(...) * scale\<close> with a positive scale.\<close>

definition fmul :: "pyfloat \<Rightarrow> real \<Rightarrow> pyfloat" where
  "fmul x k = (case x of Finite a \<Rightarrow> Finite (a * k) | PInf \<Rightarrow> PInf | NInf \<Rightarrow> NInf | NaN \<Rightarrow> NaN)"

section \<open>The parser\<close>

text \<open>\<^verbatim>\<open>si_parse\<close> (lines 236 to 275), with assertions enabled.  When neither
  pattern matches, \<^verbatim>\<open>match\<close> is \<^verbatim>\<open>None\<close> and \<^verbatim>\<open>match.group\<close> raises
  \<^verbatim>\<open>AttributeError\<close>.\<close>

definition si_parse :: "string \<Rightarrow> py_error + pyfloat" where
  "si_parse value0 =
     (case re_match CRE_10E_NUMBER value0 of
        Some m \<Rightarrow>
          if m ''integer'' \<noteq> None \<or> m ''fraction'' \<noteq> None then py_float value0
          else Inl AssertionError
      | None \<Rightarrow>
         (case re_match CRE_SI_NUMBER value0 of
            None \<Rightarrow> Inl AttributeError
          | Some d \<Rightarrow>
              if \<not> (d ''integer'' \<noteq> None \<or> d ''fraction'' \<noteq> None) then Inl AssertionError
              else
                (let si_unit = (case d ''si_unit'' of
                                  None \<Rightarrow> '' ''
                                | Some u \<Rightarrow> if u \<noteq> [] then u else '' '');
                     prefix_levels = (int (length SI_PREFIX_UNITS) - 1) div 2
                 in case str_index SI_PREFIX_UNITS si_unit of
                      Inl e \<Rightarrow> Inl e
                    | Inr i \<Rightarrow>
                       (let scale = 10 powi (3 * (int i - prefix_levels))
                        in case d ''number'' of
                             None \<Rightarrow> Inl TypeError
                           | Some n \<Rightarrow>
                              (case py_float n of
                                 Inl e \<Rightarrow> Inl e
                               | Inr x \<Rightarrow> Inr (fmul x scale))))))"

section \<open>Properties of the normalizer\<close>

lemma powr_powi10: "(10::real) powr real_of_int k = 10 powi k"
  by (rule powr_real_of_int') simp_all

lemma py_int_log_ge1:
  assumes "1 \<le> v" "10 powi k \<le> v" "v < 10 powi (k + 1)"
  shows "py_int (log 10 v) = k"
proof -
  have v: "0 < v" using assms(1) by simp
  have "0 \<le> log 10 v" using assms(1) v by (simp add: zero_le_log_cancel_iff)
  moreover have "\<lfloor>log 10 v\<rfloor> = k"
    using assms(2,3) v by (simp only: floor_log_eq_powr_iff powr_powi10)
  ultimately show ?thesis by (simp add: py_int_def)
qed





lemma split_pos_eval:
  assumes "0 < v" "py_int (log 10 v) = e0"
    and "x = (if e0 > 0 then (e0 div 3) * 3
              else if e0 < 0 then (- e0 + 3) div 3 * (- 3) else e0)"
    and "m = v * 10 powi (- x)"
  shows "split v = Inr (if m \<ge> 1000 then m / 1000 else m, if m \<ge> 1000 then x + 3 else x)"
  using assms(1,2) unfolding assms(3,4) by (simp add: split_def log10_def Let_def)









text \<open>
  Claim C9.  \<^verbatim>\<open>split(0.0)\<close> returns exactly \<^verbatim>\<open>(0.0, 0)\<close>, and it does so
  without taking the logarithm: \<^verbatim>\<open>log10\<close> raises at zero, \<^verbatim>\<open>split\<close> does not.
\<close>

theorem split_zero: "split 0 = Inr (0, 0) \<and> log10 0 = Inl ValueError"
  by (simp add: split_def log10_def)






section \<open>Properties of the prefix table\<close>

lemma length_SI_PREFIX_UNITS: "length SI_PREFIX_UNITS = 17"
  by (simp add: SI_PREFIX_UNITS_def)

lemma prefix_cases:
  "prefix expof10 =
     (if \<bar>expof10 div 3\<bar> > 8 then Inl ValueError
      else Inr [SI_PREFIX_UNITS ! nat (expof10 div 3 + 8)])"
  by (auto simp: prefix_def py_getitem_def Let_def length_SI_PREFIX_UNITS)

text \<open>
  Claim C3.  \<^verbatim>\<open>prefix(exp)\<close> raises \<^verbatim>\<open>ValueError\<close> if and only if the level
  \<open>exp div 3\<close> (the floor division \<^verbatim>\<open>expof10 // 3\<close> of the source) exceeds 8 in
  absolute value, that is, if and only if \<open>exp < -24\<close> or \<open>exp > 26\<close>; otherwise it
  returns the symbol at index \<open>exp div 3 + 8\<close>.  \<^verbatim>\<open>prefix(27)\<close> raises and
  \<^verbatim>\<open>prefix(24)\<close> returns \<^verbatim>\<open>'Y'\<close>.
\<close>

theorem prefix_range:
  "((prefix expof10 = Inl ValueError) \<longleftrightarrow> \<bar>expof10 div 3\<bar> > 8)
   \<and> (\<bar>expof10 div 3\<bar> \<le> 8 \<longrightarrow> prefix expof10 = Inr [SI_PREFIX_UNITS ! nat (expof10 div 3 + 8)])
   \<and> (\<bar>expof10 div 3\<bar> > 8 \<longleftrightarrow> expof10 < - 24 \<or> 26 < expof10)
   \<and> prefix 27 = Inl ValueError \<and> prefix 24 = Inr ''Y''"
proof (intro conjI)
  show "(prefix expof10 = Inl ValueError) \<longleftrightarrow> \<bar>expof10 div 3\<bar> > 8"
    by (simp add: prefix_cases)
  show "\<bar>expof10 div 3\<bar> \<le> 8 \<longrightarrow> prefix expof10 = Inr [SI_PREFIX_UNITS ! nat (expof10 div 3 + 8)]"
    by (simp add: prefix_cases)
  show "\<bar>expof10 div 3\<bar> > 8 \<longleftrightarrow> expof10 < - 24 \<or> 26 < expof10" by presburger
  show "prefix 27 = Inl ValueError" by (simp add: prefix_cases)
  show "prefix 24 = Inr ''Y''" by (simp add: prefix_cases SI_PREFIX_UNITS_def)
qed

theorem prefix_range_witness:
  "\<bar>(- 6 :: int) div 3\<bar> \<le> 8 \<and> prefix (- 6) = Inr [CHR 0xB5]"
  using prefix_range[of "- 6"] by (simp add: SI_PREFIX_UNITS_def)

text \<open>
  Claim C8, amended.  The prefix table is an ordered sequence of 17 distinct symbols, one
  per multiple of 3 from \<open>-24\<close> to \<open>24\<close>; its length is odd, the slot of exponent
  zero (index 8) holds a space, and index \<open>i\<close> maps to the exponent \<open>3 * (i - 8)\<close>,
  both through \<^verbatim>\<open>si_prefix_expof10\<close> and through \<^verbatim>\<open>prefix\<close>.
\<close>

theorem prefix_table:
  "length SI_PREFIX_UNITS = 17 \<and> odd (length SI_PREFIX_UNITS) \<and> distinct SI_PREFIX_UNITS
   \<and> SI_PREFIX_UNITS ! 8 = CHR '' ''
   \<and> map (\<lambda>c. si_prefix_expof10 [c]) SI_PREFIX_UNITS = map (\<lambda>i. Inr (3 * (int i - 8))) [0..<17]
   \<and> map (\<lambda>i. prefix (3 * (int i - 8))) [0..<17] = map (\<lambda>c. Inr [c]) SI_PREFIX_UNITS
   \<and> map (\<lambda>i. 3 * (int i - 8)) [0..<17] =
       [- 24, - 21, - 18, - 15, - 12, - 9, - 6, - 3, 0, 3, 6, 9, 12, 15, 18, 21, 24]"
  by code_simp

text \<open>The table does not have 18 symbols.\<close>

theorem prefix_table_counterexample: "length SI_PREFIX_UNITS \<noteq> 18"
  by (simp add: SI_PREFIX_UNITS_def)

section \<open>Properties of the formatter\<close>







lemma fmt2: "py_str 27 = ''27''" "py_str (- 27) = ''-27''" "py_str 0 = ''0''"
  by (simp_all add: py_str_def digits_of.simps digit_char_def)

lemma fmt3: "fmt_2f 1 = ''1.00''" "fmt_2f (3 / 2) = ''1.50''"
  by (simp_all add: fmt_2f_def round_half_even_def digits_of.simps digit_char_def Let_def)



lemma split_3_2: "split (3 / 2) = Inr (3 / 2, 0)"
proof -
  have "py_int (log 10 (3 / 2)) = 0"
    by (rule py_int_log_ge1) simp_all
  from split_pos_eval[OF _ this refl refl] show ?thesis by simp
qed

text \<open>
  Claim C10.  The \<^verbatim>\<open>try\<close> block of \<^verbatim>\<open>si_format\<close> also covers the rendering of
  the first template: whenever that rendering raises \<^verbatim>\<open>ValueError\<close>, also for a
  value whose exponent is in range, the result is the rendering of the second template and
  the error of the first is not propagated.  With the malformed template \<^verbatim>\<open>'{'\<close>
  the in-range value 1.5 is rendered as \<^verbatim>\<open>'1.50e0'\<close>.
\<close>

theorem si_format_catches_template_error:
  "(split v = Inr (m, e) \<and> prefix e = Inr p \<and> f m (rstrip p) = Inl ValueError \<longrightarrow>
      si_format v f g = g m ((if e > 0 then ''+'' else '''') @ py_str e))
   \<and> si_format (3 / 2) malformed_format_str default_exp_format_str = Inr ''1.50e0''"
proof (intro conjI impI)
  assume "split v = Inr (m, e) \<and> prefix e = Inr p \<and> f m (rstrip p) = Inl ValueError"
  then show "si_format v f g = g m ((if e > 0 then ''+'' else '''') @ py_str e)"
    by (simp add: si_format_def)
next
  have "prefix 0 = Inr '' ''" by (simp add: prefix_cases SI_PREFIX_UNITS_def)
  then show "si_format (3 / 2) malformed_format_str default_exp_format_str = Inr ''1.50e0''"
    by (simp add: si_format_def split_3_2 malformed_format_str_def default_exp_format_str_def fmt2 fmt3)
qed

theorem si_format_catches_template_error_witness:
  "split (3 / 2) = Inr (3 / 2, 0) \<and> prefix 0 = Inr '' ''
   \<and> malformed_format_str (3 / 2) (rstrip '' '') = Inl ValueError
   \<and> si_format (3 / 2) malformed_format_str default_exp_format_str
       = default_exp_format_str (3 / 2) ''0''"
proof -
  have p: "prefix 0 = Inr '' ''" by (simp add: prefix_cases SI_PREFIX_UNITS_def)
  have m: "malformed_format_str (3 / 2) (rstrip '' '') = Inl ValueError"
    by (simp add: malformed_format_str_def)
  from si_format_catches_template_error[of "3 / 2" "3 / 2" 0 "'' ''" malformed_format_str default_exp_format_str]
    split_3_2 p m
  show ?thesis by (simp add: fmt2)
qed

section \<open>Properties of the matcher\<close>
















lemma re_match_None_iff: "re_match r s = None \<longleftrightarrow> (\<forall>g s'. (g, s') \<notin> set (rmatch r Map.empty s))"
  by (auto simp: re_match_def first_match_def split: list.splits)

declare rmatch.simps [simp del]










section \<open>Properties of the parser\<close>














text \<open>
  Claim C7 does not hold of the code.  The first pattern matches \<^verbatim>\<open>'1x5'\<close> (the dot
  of the group \<^verbatim>\<open>fraction\<close> is not escaped and matches \<^verbatim>\<open>x\<close>) and
  \<^verbatim>\<open>'1 e5'\<close> (whitespace is allowed before the exponent); both contain a digit, the
  assertion passes, and \<^verbatim>\<open>float\<close> raises \<^verbatim>\<open>ValueError\<close>.
\<close>

theorem si_parse_float_failure:
  "re_match CRE_10E_NUMBER ''1x5'' \<noteq> None
   \<and> the (re_match CRE_10E_NUMBER ''1x5'') ''integer'' = Some ''1''
   \<and> the (re_match CRE_10E_NUMBER ''1x5'') ''fraction'' = Some ''x5''
   \<and> py_float ''1x5'' = Inl ValueError
   \<and> si_parse ''1x5'' = Inl ValueError
   \<and> re_match CRE_10E_NUMBER ''1 e5'' \<noteq> None
   \<and> the (re_match CRE_10E_NUMBER ''1 e5'') ''integer'' = Some ''1''
   \<and> si_parse ''1 e5'' = Inl ValueError"
  by code_simp

theorem si_parse_float_failure_witness:
  "si_parse ''1x5'' \<noteq> Inr (Finite 15) \<and> si_parse ''1 e5'' \<noteq> Inr (Finite 100000)"
  using si_parse_float_failure by simp

section \<open>Properties of the round trip\<close>



















































end
